theory Spec2Isabelle
  imports Main
begin

section \<open>Data model\<close>

text \<open>
  Modelled from the spec: the interface \<open>IDestinationProperty\<close> is declared in
  \<open>interfaces/IDestinationProperty\<close>, which is not part of the validator's file. The
  validator reads four fields of it: \<open>name\<close>, \<open>destinationPropertyName\<close> (the display
  name), \<open>ignore\<close> and \<open>sourceMapping\<close>. The last two are only ever tested for
  truthiness, so they are booleans here (an absent flag is \<open>False\<close>).
\<close>

record IDestinationProperty =
  name :: string
  destinationPropertyName :: string
  ignore :: bool
  sourceMapping :: bool

text \<open>
  Modelled from the spec: the interface \<open>ISourceProperty\<close> is declared in
  \<open>interfaces/ISourceProperty\<close>. A rule has a \<open>name\<close>, a \<open>destinationPropertyName\<close>, an
  optional \<open>destination\<close> and an optional sequence of \<open>children\<close>. An object or an array
  is truthy in JavaScript (the empty array too), so \<open>if (x.destination)\<close> and
  \<open>if (x.children)\<close> test presence: \<open>None\<close> is the absent field. A value of this
  datatype is a finite tree.
\<close>

datatype ISourceProperty = ISourceProperty
  (name: string)
  (destinationPropertyName: string)
  (destination: "IDestinationProperty option")
  (children: "ISourceProperty list option")

text \<open>
  An object as the validator observes it: the names a \<open>for ... in\<close> loop visits, in
  order (enumerable names, own and inherited), and the names for which
  \<open>hasOwnProperty\<close> answers true. The values of the properties are never read.
\<close>

record jsobject =
  forInKeys :: "string list"
  ownKeys :: "string list"

definition hasOwnProperty :: "jsobject \<Rightarrow> string \<Rightarrow> bool" where
  "hasOwnProperty obj key = (key \<in> set (ownKeys obj))"

text \<open>
  Modelled from the spec: a type reference is used in two ways, \<open>new sourceType()\<close> and
  \<open>AutoMapperHelper.getClassName(sourceType)\<close>; the helper is not part of the validator's
  file. A class is the instance its zero-argument construction yields together with the
  display name the helper extracts.
\<close>

record jsclass =
  className :: string
  construct :: jsobject

text \<open>
  Modelled from the spec: the interface \<open>IMapping\<close> is declared in
  \<open>interfaces/IMapping\<close>. A constructor is truthy, so \<open>!sourceType\<close> tests absence.
\<close>

record IMapping =
  sourceKey :: string
  destinationKey :: string
  sourceTypeClass :: "jsclass option"
  destinationTypeClass :: "jsclass option"
  properties :: "ISourceProperty list"

text \<open>
  The registry handed to \<open>assertConfigurationIsValid\<close>: the keys its \<open>for ... in\<close> loop
  visits, in order, and its own entries (\<open>mappings.hasOwnProperty(key)\<close> holds exactly
  where \<open>ownEntries\<close> is defined, and \<open>mappings[key]\<close> is the entry).
\<close>

record registry =
  registryKeys :: "string list"
  ownEntries :: "string \<Rightarrow> IMapping option"

text \<open>
  What the validator throws: \<open>new Error(message)\<close>, or the \<open>TypeError\<close> of the runtime
  when a field of \<open>null\<close> is read.
\<close>

datatype error = Error string | TypeError

section \<open>The validator\<close>

text \<open>The template-literal fragment \<open>'${s}'\<close>.\<close>

definition quoted :: "string \<Rightarrow> string" where
  "quoted s = CHR 0x27 # s @ [CHR 0x27]"

text \<open>
  \<open>getDestinationProperty\<close>, lines 172 to 187. The second function is the
  \<open>for ... of\<close> loop over the children.
\<close>

fun getDestinationProperty :: "string \<Rightarrow> ISourceProperty \<Rightarrow> IDestinationProperty option"
and getDestinationProperty_children ::
  "string \<Rightarrow> ISourceProperty list \<Rightarrow> IDestinationProperty option"
where
  "getDestinationProperty dpn (ISourceProperty nm dn (Some d) ch) = Some d"
| "getDestinationProperty dpn (ISourceProperty nm dn None (Some cs)) =
     getDestinationProperty_children dpn cs"
| "getDestinationProperty dpn (ISourceProperty nm dn None None) = None"
| "getDestinationProperty_children dpn [] = None"
| "getDestinationProperty_children dpn (child # rest) =
     (case getDestinationProperty dpn child of
        Some d \<Rightarrow> Some d
      | None \<Rightarrow> getDestinationProperty_children dpn rest)"

text \<open>
  The same function with a budget of nested calls: \<open>None\<close> is a call chain that needs
  more than the budget, \<open>Some r\<close> is the call returning \<open>r\<close>.
\<close>

fun getDestinationProperty_fuel ::
  "nat \<Rightarrow> string \<Rightarrow> ISourceProperty \<Rightarrow> IDestinationProperty option option"
and getDestinationProperty_children_fuel ::
  "nat \<Rightarrow> string \<Rightarrow> ISourceProperty list \<Rightarrow> IDestinationProperty option option"
where
  "getDestinationProperty_fuel 0 dpn existingSource = None"
| "getDestinationProperty_fuel (Suc k) dpn existingSource =
     (case destination existingSource of
        Some d \<Rightarrow> Some (Some d)
      | None \<Rightarrow>
          (case children existingSource of
             Some cs \<Rightarrow> getDestinationProperty_children_fuel k dpn cs
           | None \<Rightarrow> Some None))"
| "getDestinationProperty_children_fuel k dpn [] = Some None"
| "getDestinationProperty_children_fuel k dpn (child # rest) =
     (case getDestinationProperty_fuel k dpn child of
        None \<Rightarrow> None
      | Some (Some d) \<Rightarrow> Some (Some d)
      | Some None \<Rightarrow> getDestinationProperty_children_fuel k dpn rest)"

text \<open>
  The number of calls nested below the call on a rule: none for a rule without children,
  one more than the deepest child otherwise.
\<close>

fun depth :: "ISourceProperty \<Rightarrow> nat"
and depth_children :: "ISourceProperty list \<Rightarrow> nat"
where
  "depth (ISourceProperty nm dn d None) = 0"
| "depth (ISourceProperty nm dn d (Some cs)) = depth_children cs"
| "depth_children [] = 0"
| "depth_children (child # rest) = max (Suc (depth child)) (depth_children rest)"

text \<open>\<open>validateSourcePropertyMapping\<close>, lines 106 to 133.\<close>

definition validateSourcePropertyMapping ::
  "ISourceProperty \<Rightarrow> IDestinationProperty \<Rightarrow> string \<Rightarrow> jsobject \<Rightarrow> jsobject \<Rightarrow> string option"
where
  "validateSourcePropertyMapping ropertyMapping destinationProperty member srcObj dstObj =
     (if \<not> hasOwnProperty srcObj member then
        Some (''Source member '' @ quoted member
              @ '' is configured, but does not exist on source type'')
      else if ignore destinationProperty then
        (if hasOwnProperty dstObj member then
           Some (''Source member '' @ quoted member
                 @ '' is ignored, but does exist on destination type'')
         else None)
      else if \<not> hasOwnProperty dstObj member then
        Some (''Source member '' @ quoted member
              @ '' is configured to be mapped, but does not exist on destination type'')
      else None)"

text \<open>\<open>validateDestinationPropertyMapping\<close>, lines 135 to 162.\<close>

definition validateDestinationPropertyMapping ::
  "ISourceProperty \<Rightarrow> IDestinationProperty \<Rightarrow> string \<Rightarrow> jsobject \<Rightarrow> jsobject \<Rightarrow> string option"
where
  "validateDestinationPropertyMapping propertyMapping destinationProperty member srcObj dstObj =
     (if \<not> hasOwnProperty dstObj (IDestinationProperty.name destinationProperty) then
        Some (''Destination member ''
              @ quoted (IDestinationProperty.destinationPropertyName destinationProperty)
              @ '' is configured, but does not exist on destination type'')
      else if ignore destinationProperty then
        (if hasOwnProperty srcObj member then
           Some (''Destination member '' @ quoted member
                 @ '' is ignored, but does exist on source type'')
         else None)
      else if \<not> hasOwnProperty srcObj member then
        Some (''Destination member '' @ quoted member
              @ '' is configured to be mapped, but does not exist on source type'')
      else None)"

text \<open>\<open>validateProperty\<close>, lines 164 to 170.\<close>

definition validateProperty :: "string \<Rightarrow> jsobject \<Rightarrow> string option" where
  "validateProperty srcMember dstObj =
     (if \<not> hasOwnProperty dstObj srcMember then
        Some (''Source member '' @ quoted srcMember
              @ '' is configured to be mapped, but does not exist on destination type'')
      else None)"

text \<open>
  \<open>validatePropertyMapping\<close>, lines 97 to 104. Reading \<open>sourceMapping\<close> of the \<open>null\<close>
  that \<open>getDestinationProperty\<close> may return throws a \<open>TypeError\<close>.
\<close>

definition validatePropertyMapping ::
  "ISourceProperty \<Rightarrow> string \<Rightarrow> jsobject \<Rightarrow> jsobject \<Rightarrow> error + string option"
where
  "validatePropertyMapping propertyMapping member srcObj dstObj =
     (case getDestinationProperty
             (ISourceProperty.destinationPropertyName propertyMapping) propertyMapping of
        None \<Rightarrow> Inl TypeError
      | Some destinationProperty \<Rightarrow>
          Inr (if sourceMapping destinationProperty
               then validateSourcePropertyMapping
                      propertyMapping destinationProperty member srcObj dstObj
               else validateDestinationPropertyMapping
                      propertyMapping destinationProperty member srcObj dstObj))"

text \<open>
  The closure \<open>tryHandle\<close>, lines 46 to 50, with the three names it captures as
  arguments. \<open>undefined\<close> and the empty string are falsy.
\<close>

definition tryHandle :: "string \<Rightarrow> string \<Rightarrow> string \<Rightarrow> string option \<Rightarrow> error + unit" where
  "tryHandle mappingKey sourceClassName destinationClassName errorMessage =
     (case errorMessage of
        None \<Rightarrow> Inr ()
      | Some msg \<Rightarrow>
          if msg = [] then Inr ()
          else Inl (Error (''Mapping '' @ quoted mappingKey @ '' is invalid: '' @ msg
                           @ '' (source: '' @ quoted sourceClassName
                           @ '', destination: '' @ quoted destinationClassName @ '').'')))"

text \<open>
  The three walks of \<open>assertMappingConfiguration\<close>, each threading the array
  \<open>validatedMembers\<close>: over \<open>mapping.properties\<close> (lines 58 to 62), over the names of
  \<open>srcObj\<close> (lines 65 to 77) and over the names of \<open>dstObj\<close> (lines 80 to 91).
\<close>

fun walkMemberMappings ::
  "(string option \<Rightarrow> error + unit) \<Rightarrow> ISourceProperty list \<Rightarrow> jsobject \<Rightarrow> jsobject
   \<Rightarrow> string list \<Rightarrow> error + string list"
where
  "walkMemberMappings handle [] srcObj dstObj validatedMembers = Inr validatedMembers"
| "walkMemberMappings handle (property # rest) srcObj dstObj validatedMembers =
     (case validatePropertyMapping property (ISourceProperty.name property) srcObj dstObj of
        Inl e \<Rightarrow> Inl e
      | Inr errorMessage \<Rightarrow>
          (case handle errorMessage of
             Inl e \<Rightarrow> Inl e
           | Inr u \<Rightarrow>
               walkMemberMappings handle rest srcObj dstObj
                 (validatedMembers @ [ISourceProperty.name property])))"

fun walkSourceMembers ::
  "(string option \<Rightarrow> error + unit) \<Rightarrow> string list \<Rightarrow> jsobject \<Rightarrow> jsobject
   \<Rightarrow> string list \<Rightarrow> error + string list"
where
  "walkSourceMembers handle [] srcObj dstObj validatedMembers = Inr validatedMembers"
| "walkSourceMembers handle (srcMember # rest) srcObj dstObj validatedMembers =
     (if \<not> hasOwnProperty srcObj srcMember then
        walkSourceMembers handle rest srcObj dstObj validatedMembers
      else if srcMember \<in> set validatedMembers then
        walkSourceMembers handle rest srcObj dstObj validatedMembers
      else
        (case handle (validateProperty srcMember dstObj) of
           Inl e \<Rightarrow> Inl e
         | Inr u \<Rightarrow>
             walkSourceMembers handle rest srcObj dstObj (validatedMembers @ [srcMember])))"

fun walkDestinationMembers ::
  "(string option \<Rightarrow> error + unit) \<Rightarrow> string list \<Rightarrow> jsobject \<Rightarrow> string list
   \<Rightarrow> error + unit"
where
  "walkDestinationMembers handle [] dstObj validatedMembers = Inr ()"
| "walkDestinationMembers handle (dstMember # rest) dstObj validatedMembers =
     (if \<not> hasOwnProperty dstObj dstMember then
        walkDestinationMembers handle rest dstObj validatedMembers
      else if dstMember \<in> set validatedMembers then
        walkDestinationMembers handle rest dstObj validatedMembers
      else
        (case handle (Some (''Destination member '' @ quoted dstMember
                            @ '' does not exist on source type'')) of
           Inl e \<Rightarrow> Inl e
         | Inr u \<Rightarrow> walkDestinationMembers handle rest dstObj validatedMembers))"

text \<open>\<open>assertMappingConfiguration\<close>, lines 29 to 95.\<close>

definition assertMappingConfiguration :: "IMapping \<Rightarrow> bool \<Rightarrow> error + unit" where
  "assertMappingConfiguration mapping strictMode =
     (let mappingKey = sourceKey mapping @ ''=>'' @ destinationKey mapping in
      case (sourceTypeClass mapping, destinationTypeClass mapping) of
        (Some sourceType, Some destinationType) \<Rightarrow>
          (let handle = tryHandle mappingKey (className sourceType) (className destinationType);
               srcObj = construct sourceType;
               dstObj = construct destinationType
           in case walkMemberMappings handle (properties mapping) srcObj dstObj [] of
                Inl e \<Rightarrow> Inl e
              | Inr validated1 \<Rightarrow>
                  (case walkSourceMembers handle (forInKeys srcObj) srcObj dstObj validated1 of
                     Inl e \<Rightarrow> Inl e
                   | Inr validated2 \<Rightarrow>
                       walkDestinationMembers handle (forInKeys dstObj) dstObj validated2))
      | _ \<Rightarrow>
          if strictMode = False then Inr ()
          else Inl (Error (''Mapping '' @ quoted mappingKey
                 @ '' cannot be validated, since mapping.sourceType or mapping.destinationType are unspecified.'')))"

text \<open>\<open>assertConfigurationIsValid\<close>, lines 19 to 27.\<close>

fun assertConfigurationIsValid_loop ::
  "string list \<Rightarrow> (string \<Rightarrow> IMapping option) \<Rightarrow> bool \<Rightarrow> error + unit"
where
  "assertConfigurationIsValid_loop [] own strictMode = Inr ()"
| "assertConfigurationIsValid_loop (key # rest) own strictMode =
     (case own key of
        None \<Rightarrow> assertConfigurationIsValid_loop rest own strictMode
      | Some mapping \<Rightarrow>
          (case assertMappingConfiguration mapping strictMode of
             Inl e \<Rightarrow> Inl e
           | Inr u \<Rightarrow> assertConfigurationIsValid_loop rest own strictMode))"

definition assertConfigurationIsValid :: "registry \<Rightarrow> bool \<Rightarrow> error + unit" where
  "assertConfigurationIsValid mappings strictMode =
     assertConfigurationIsValid_loop (registryKeys mappings) (ownEntries mappings) strictMode"

section \<open>Destination-rule resolution\<close>

lemma getDestinationProperty_any_name:
  "getDestinationProperty n1 r = getDestinationProperty n2 r"
  "getDestinationProperty_children n1 cs = getDestinationProperty_children n2 cs"
  by (induction n1 r and n1 cs rule: getDestinationProperty_getDestinationProperty_children.induct)
     (simp_all split: option.splits)

lemma children_first_present:
  "getDestinationProperty_children n cs = Some d \<longleftrightarrow>
     (\<exists>i<length cs. getDestinationProperty n (cs ! i) = Some d
        \<and> (\<forall>j<i. getDestinationProperty n (cs ! j) = None))"
proof (induction cs)
  case Nil
  then show ?case by simp
next
  case (Cons c cs)
  show ?case
  proof (cases "getDestinationProperty n c")
    case None
    have "(\<exists>i<length (c # cs). getDestinationProperty n ((c # cs) ! i) = Some d
        \<and> (\<forall>j<i. getDestinationProperty n ((c # cs) ! j) = None))
      \<longleftrightarrow> (\<exists>i<length cs. getDestinationProperty n (cs ! i) = Some d
        \<and> (\<forall>j<i. getDestinationProperty n (cs ! j) = None))" (is "?L \<longleftrightarrow> ?R")
    proof
      assume ?L
      then obtain i where i: "i < length (c # cs)" "getDestinationProperty n ((c # cs) ! i) = Some d"
        "\<forall>j<i. getDestinationProperty n ((c # cs) ! j) = None" by blast
      from i(2) None obtain i' where i': "i = Suc i'" by (cases i) auto
      have "\<forall>j<i'. getDestinationProperty n (cs ! j) = None"
      proof (intro allI impI)
        fix j assume "j < i'"
        then have "Suc j < i" using i' by simp
        with i(3) have "getDestinationProperty n ((c # cs) ! Suc j) = None" by blast
        then show "getDestinationProperty n (cs ! j) = None" by simp
      qed
      with i i' show ?R by auto
    next
      assume ?R
      then obtain i where i: "i < length cs" "getDestinationProperty n (cs ! i) = Some d"
        "\<forall>j<i. getDestinationProperty n (cs ! j) = None" by blast
      have "\<forall>j<Suc i. getDestinationProperty n ((c # cs) ! j) = None"
        using i(3) None by (auto simp: less_Suc_eq_0_disj)
      with i show ?L by (intro exI[of _ "Suc i"]) simp
    qed
    with None Cons show ?thesis by simp
  next
    case (Some d')
    have "(\<exists>i<length (c # cs). getDestinationProperty n ((c # cs) ! i) = Some d
        \<and> (\<forall>j<i. getDestinationProperty n ((c # cs) ! j) = None)) \<longleftrightarrow> d' = d" (is "?L \<longleftrightarrow> _")
    proof
      assume ?L
      then obtain i where i: "getDestinationProperty n ((c # cs) ! i) = Some d"
        "\<forall>j<i. getDestinationProperty n ((c # cs) ! j) = None" by blast
      have "i = 0"
      proof (rule ccontr)
        assume "i \<noteq> 0"
        with i(2) have "getDestinationProperty n ((c # cs) ! 0) = None" by blast
        with Some show False by simp
      qed
      with i(1) Some show "d' = d" by simp
    next
      assume "d' = d"
      with Some show ?L by (intro exI[of _ 0]) simp
    qed
    with Some show ?thesis by simp
  qed
qed

lemma fuel_enough:
  "depth r < k \<Longrightarrow> getDestinationProperty_fuel k n r = Some (getDestinationProperty n r)"
  "depth_children cs \<le> k \<Longrightarrow>
     getDestinationProperty_children_fuel k n cs = Some (getDestinationProperty_children n cs)"
proof (induction n r and n cs arbitrary: k and k
       rule: getDestinationProperty_getDestinationProperty_children.induct)
  case (1 dpn nm dn d ch)
  then show ?case by (cases k) simp_all
next
  case (2 dpn nm dn cs)
  then show ?case by (cases k) simp_all
next
  case (3 dpn nm dn)
  then show ?case by (cases k) simp_all
next
  case (4 dpn)
  then show ?case by simp
next
  case (5 dpn child rest)
  then show ?case by (simp split: option.splits)
qed

text \<open>
  C5. Resolution returns the rule's own destination when it has one. Otherwise, when the
  rule has children, it returns the resolution of the first child, in sequence order,
  whose resolution (itself depth-first) is not absent, and absent when there is no such
  child. Otherwise it returns absent. In particular, a rule without a destination, with
  two children of which the first resolves to absent and the second holds a destination,
  resolves to the destination of the second child.
\<close>

theorem getDestinationProperty_resolution:
  "(destination r = Some d \<longrightarrow> getDestinationProperty n r = Some d)
   \<and> (destination r = None \<and> children r = Some cs \<longrightarrow>
        (\<forall>d'. getDestinationProperty n r = Some d' \<longleftrightarrow>
           (\<exists>i<length cs. getDestinationProperty n (cs ! i) = Some d'
              \<and> (\<forall>j<i. getDestinationProperty n (cs ! j) = None))))
   \<and> (destination r = None \<and> children r = None \<longrightarrow> getDestinationProperty n r = None)
   \<and> (destination r = None \<and> children r = Some [c1, c2]
        \<and> getDestinationProperty n c1 = None \<and> destination c2 = Some d2 \<longrightarrow>
        getDestinationProperty n r = Some d2)"
proof (cases r)
  case (ISourceProperty nm dn dst ch)
  have second: "getDestinationProperty n c2 = Some d2" if "destination c2 = Some d2"
    using that by (cases c2) simp
  show ?thesis
    using ISourceProperty second
    by (auto simp: children_first_present)
qed

theorem getDestinationProperty_resolution_witness:
  "getDestinationProperty ''target''
     (ISourceProperty ''address'' ''target'' None
        (Some [ISourceProperty ''street'' ''target'' None None,
               ISourceProperty ''city'' ''target''
                 (Some \<lparr>IDestinationProperty.name = ''city'',
                         IDestinationProperty.destinationPropertyName = ''city'',
                         ignore = False, sourceMapping = True\<rparr>) None]))
   = Some \<lparr>IDestinationProperty.name = ''city'',
             IDestinationProperty.destinationPropertyName = ''city'',
             ignore = False, sourceMapping = True\<rparr>"
  using getDestinationProperty_resolution
    [of "ISourceProperty ''address'' ''target'' None
           (Some [ISourceProperty ''street'' ''target'' None None,
                  ISourceProperty ''city'' ''target''
                    (Some \<lparr>IDestinationProperty.name = ''city'',
                            IDestinationProperty.destinationPropertyName = ''city'',
                            ignore = False, sourceMapping = True\<rparr>) None])"
        _ "''target''" _
        "ISourceProperty ''street'' ''target'' None None"
        "ISourceProperty ''city'' ''target''
           (Some \<lparr>IDestinationProperty.name = ''city'',
                   IDestinationProperty.destinationPropertyName = ''city'',
                   ignore = False, sourceMapping = True\<rparr>) None"
        "\<lparr>IDestinationProperty.name = ''city'',
          IDestinationProperty.destinationPropertyName = ''city'',
          ignore = False, sourceMapping = True\<rparr>"]
  by simp

text \<open>
  C9. Resolution terminates on every rule: a value of the datatype is a finite tree, and
  a budget of one call more than the depth of the tree is enough for the call to return,
  with a destination rule or with absent.
\<close>

theorem getDestinationProperty_terminates:
  "getDestinationProperty_fuel (Suc (depth r)) n r = Some (getDestinationProperty n r)"
  by (rule fuel_enough(1)) simp

text \<open>
  C10. The name passed to resolution never influences its result.
\<close>

theorem getDestinationProperty_name_irrelevant:
  "getDestinationProperty n1 r = getDestinationProperty n2 r"
  by (rule getDestinationProperty_any_name(1))

section \<open>The checks of one configured property\<close>

lemma type_suffix_differs:
  "xs @ ''destination type'' \<noteq> ys @ ''source type''"
proof
  assume "xs @ ''destination type'' = ys @ ''source type''"
  then have "rev (xs @ ''destination type'') = rev (ys @ ''source type'')"
    by (rule arg_cong)
  then show False
    by (simp only: rev_append rev.simps append.simps list.inject char.inject simp_thms)
qed

lemma configured_differs_ignored:
  "quoted a @ '' is configured, but does not exist on destination type''
     \<noteq> quoted b @ '' is ignored, but does exist on source type''"
  using type_suffix_differs
    [of "quoted a @ '' is configured, but does not exist on ''"
        "quoted b @ '' is ignored, but does exist on ''"]
  by simp

lemma configured_differs_mapped:
  "quoted a @ '' is configured, but does not exist on destination type''
     \<noteq> quoted b @ '' is configured to be mapped, but does not exist on source type''"
  using type_suffix_differs
    [of "quoted a @ '' is configured, but does not exist on ''"
        "quoted b @ '' is configured to be mapped, but does not exist on ''"]
  by simp

lemma validatePropertyMapping_resolved:
  "getDestinationProperty (ISourceProperty.destinationPropertyName p) p = Some d \<Longrightarrow>
   validatePropertyMapping p member srcObj dstObj =
     Inr (if sourceMapping d then validateSourcePropertyMapping p d member srcObj dstObj
          else validateDestinationPropertyMapping p d member srcObj dstObj)"
  by (simp add: validatePropertyMapping_def)

lemma source_branch:
  "(validateSourcePropertyMapping p d m srcObj dstObj =
      Some (''Source member '' @ quoted m
            @ '' is configured, but does not exist on source type'')
    \<longleftrightarrow> \<not> hasOwnProperty srcObj m)
   \<and> (validateSourcePropertyMapping p d m srcObj dstObj =
      Some (''Source member '' @ quoted m
            @ '' is ignored, but does exist on destination type'')
    \<longleftrightarrow> hasOwnProperty srcObj m \<and> ignore d \<and> hasOwnProperty dstObj m)
   \<and> (validateSourcePropertyMapping p d m srcObj dstObj =
      Some (''Source member '' @ quoted m
            @ '' is configured to be mapped, but does not exist on destination type'')
    \<longleftrightarrow> hasOwnProperty srcObj m \<and> \<not> ignore d \<and> \<not> hasOwnProperty dstObj m)
   \<and> (validateSourcePropertyMapping p d m srcObj dstObj = None
    \<longleftrightarrow> hasOwnProperty srcObj m \<and> (ignore d \<longleftrightarrow> \<not> hasOwnProperty dstObj m))"
  by (simp add: validateSourcePropertyMapping_def)

lemma destination_branch:
  "(validateDestinationPropertyMapping p d m srcObj dstObj =
      Some (''Destination member '' @ quoted (IDestinationProperty.destinationPropertyName d)
            @ '' is configured, but does not exist on destination type'')
    \<longleftrightarrow> \<not> hasOwnProperty dstObj (IDestinationProperty.name d))
   \<and> (validateDestinationPropertyMapping p d m srcObj dstObj =
      Some (''Destination member '' @ quoted m
            @ '' is ignored, but does exist on source type'')
    \<longleftrightarrow> hasOwnProperty dstObj (IDestinationProperty.name d) \<and> ignore d
         \<and> hasOwnProperty srcObj m)
   \<and> (validateDestinationPropertyMapping p d m srcObj dstObj =
      Some (''Destination member '' @ quoted m
            @ '' is configured to be mapped, but does not exist on source type'')
    \<longleftrightarrow> hasOwnProperty dstObj (IDestinationProperty.name d) \<and> \<not> ignore d
         \<and> \<not> hasOwnProperty srcObj m)
   \<and> (validateDestinationPropertyMapping p d m srcObj dstObj = None
    \<longleftrightarrow> hasOwnProperty dstObj (IDestinationProperty.name d)
         \<and> (ignore d \<longleftrightarrow> \<not> hasOwnProperty srcObj m))"
  using configured_differs_ignored [of "IDestinationProperty.destinationPropertyName d" m]
        configured_differs_mapped [of "IDestinationProperty.destinationPropertyName d" m]
        configured_differs_ignored [of "IDestinationProperty.destinationPropertyName d" m, symmetric]
        configured_differs_mapped [of "IDestinationProperty.destinationPropertyName d" m, symmetric]
  by (simp add: validateDestinationPropertyMapping_def)

text \<open>
  C1. For a configured rule whose destination rule resolves to \<open>d\<close>, the check of the
  rule's name follows one of two mirrored sequences, selected by \<open>sourceMapping d\<close>.
  When it is true: "Source member ... is configured, but does not exist on source type" is
  reported exactly when the source instance does not own the name; otherwise, with
  \<open>ignore\<close> set, "... is ignored, but does exist on destination type" exactly when the
  destination instance owns the name; otherwise "... is configured to be mapped, but does
  not exist on destination type" exactly when the destination instance does not own it.
  When it is false: the name of \<open>d\<close> is checked against the destination instance first
  (the message shows the display name of \<open>d\<close>), then the rule's name against the source
  instance, with the destination-side messages. In all remaining cases no error is
  produced.
\<close>

theorem validatePropertyMapping_presence_checks:
  assumes "getDestinationProperty (ISourceProperty.destinationPropertyName p) p = Some d"
  shows
    "(sourceMapping d \<longrightarrow>
        (validatePropertyMapping p (ISourceProperty.name p) srcObj dstObj =
           Inr (Some (''Source member '' @ quoted (ISourceProperty.name p)
                      @ '' is configured, but does not exist on source type''))
         \<longleftrightarrow> \<not> hasOwnProperty srcObj (ISourceProperty.name p))
      \<and> (hasOwnProperty srcObj (ISourceProperty.name p) \<and> ignore d \<longrightarrow>
          (validatePropertyMapping p (ISourceProperty.name p) srcObj dstObj =
             Inr (Some (''Source member '' @ quoted (ISourceProperty.name p)
                        @ '' is ignored, but does exist on destination type''))
           \<longleftrightarrow> hasOwnProperty dstObj (ISourceProperty.name p)))
      \<and> (hasOwnProperty srcObj (ISourceProperty.name p) \<and> \<not> ignore d \<longrightarrow>
          (validatePropertyMapping p (ISourceProperty.name p) srcObj dstObj =
             Inr (Some (''Source member '' @ quoted (ISourceProperty.name p)
                        @ '' is configured to be mapped, but does not exist on destination type''))
           \<longleftrightarrow> \<not> hasOwnProperty dstObj (ISourceProperty.name p)))
      \<and> (validatePropertyMapping p (ISourceProperty.name p) srcObj dstObj = Inr None
         \<longleftrightarrow> hasOwnProperty srcObj (ISourceProperty.name p)
              \<and> (ignore d \<longleftrightarrow> \<not> hasOwnProperty dstObj (ISourceProperty.name p))))
     \<and> (\<not> sourceMapping d \<longrightarrow>
        (validatePropertyMapping p (ISourceProperty.name p) srcObj dstObj =
           Inr (Some (''Destination member ''
                      @ quoted (IDestinationProperty.destinationPropertyName d)
                      @ '' is configured, but does not exist on destination type''))
         \<longleftrightarrow> \<not> hasOwnProperty dstObj (IDestinationProperty.name d))
      \<and> (hasOwnProperty dstObj (IDestinationProperty.name d) \<and> ignore d \<longrightarrow>
          (validatePropertyMapping p (ISourceProperty.name p) srcObj dstObj =
             Inr (Some (''Destination member '' @ quoted (ISourceProperty.name p)
                        @ '' is ignored, but does exist on source type''))
           \<longleftrightarrow> hasOwnProperty srcObj (ISourceProperty.name p)))
      \<and> (hasOwnProperty dstObj (IDestinationProperty.name d) \<and> \<not> ignore d \<longrightarrow>
          (validatePropertyMapping p (ISourceProperty.name p) srcObj dstObj =
             Inr (Some (''Destination member '' @ quoted (ISourceProperty.name p)
                        @ '' is configured to be mapped, but does not exist on source type''))
           \<longleftrightarrow> \<not> hasOwnProperty srcObj (ISourceProperty.name p)))
      \<and> (validatePropertyMapping p (ISourceProperty.name p) srcObj dstObj = Inr None
         \<longleftrightarrow> hasOwnProperty dstObj (IDestinationProperty.name d)
              \<and> (ignore d \<longleftrightarrow> \<not> hasOwnProperty srcObj (ISourceProperty.name p))))"
proof (cases "sourceMapping d")
  case True
  then have "validatePropertyMapping p (ISourceProperty.name p) srcObj dstObj =
      Inr (validateSourcePropertyMapping p d (ISourceProperty.name p) srcObj dstObj)"
    using validatePropertyMapping_resolved [OF assms] by simp
  with True source_branch [of p d "ISourceProperty.name p" srcObj dstObj]
  show ?thesis by (simp only: sum.inject simp_thms) blast
next
  case False
  then have "validatePropertyMapping p (ISourceProperty.name p) srcObj dstObj =
      Inr (validateDestinationPropertyMapping p d (ISourceProperty.name p) srcObj dstObj)"
    using validatePropertyMapping_resolved [OF assms] by simp
  with False destination_branch [of p d "ISourceProperty.name p" srcObj dstObj]
  show ?thesis by (simp only: sum.inject simp_thms) blast
qed

theorem validatePropertyMapping_presence_checks_witness:
  "validatePropertyMapping
     (ISourceProperty ''secret'' ''secret''
        (Some \<lparr>IDestinationProperty.name = ''secret'',
                IDestinationProperty.destinationPropertyName = ''secret'',
                ignore = True, sourceMapping = True\<rparr>) None)
     ''secret''
     \<lparr>forInKeys = [''id'', ''secret''], ownKeys = [''id'', ''secret'']\<rparr>
     \<lparr>forInKeys = [''id'', ''secret''], ownKeys = [''id'', ''secret'']\<rparr>
   = Inr (Some (''Source member '' @ quoted ''secret''
                @ '' is ignored, but does exist on destination type''))
   \<and> validatePropertyMapping
     (ISourceProperty ''first'' ''given''
        (Some \<lparr>IDestinationProperty.name = ''given'',
                IDestinationProperty.destinationPropertyName = ''given'',
                ignore = False, sourceMapping = False\<rparr>) None)
     ''first''
     \<lparr>forInKeys = [''first''], ownKeys = [''first'']\<rparr>
     \<lparr>forInKeys = [''last''], ownKeys = [''last'']\<rparr>
   = Inr (Some (''Destination member '' @ quoted ''given''
                @ '' is configured, but does not exist on destination type''))"
  using validatePropertyMapping_presence_checks
    [of "ISourceProperty ''secret'' ''secret''
           (Some \<lparr>IDestinationProperty.name = ''secret'',
                   IDestinationProperty.destinationPropertyName = ''secret'',
                   ignore = True, sourceMapping = True\<rparr>) None"
        "\<lparr>IDestinationProperty.name = ''secret'',
          IDestinationProperty.destinationPropertyName = ''secret'',
          ignore = True, sourceMapping = True\<rparr>"
        "\<lparr>forInKeys = [''id'', ''secret''], ownKeys = [''id'', ''secret'']\<rparr>"
        "\<lparr>forInKeys = [''id'', ''secret''], ownKeys = [''id'', ''secret'']\<rparr>"]
    validatePropertyMapping_presence_checks
    [of "ISourceProperty ''first'' ''given''
           (Some \<lparr>IDestinationProperty.name = ''given'',
                   IDestinationProperty.destinationPropertyName = ''given'',
                   ignore = False, sourceMapping = False\<rparr>) None"
        "\<lparr>IDestinationProperty.name = ''given'',
          IDestinationProperty.destinationPropertyName = ''given'',
          ignore = False, sourceMapping = False\<rparr>"
        "\<lparr>forInKeys = [''first''], ownKeys = [''first'']\<rparr>"
        "\<lparr>forInKeys = [''last''], ownKeys = [''last'']\<rparr>"]
  by (simp add: hasOwnProperty_def)

section \<open>The validation of one mapping\<close>

lemma walkMemberMappings_validated:
  "walkMemberMappings h props srcObj dstObj v = Inr v1 \<Longrightarrow>
   v1 = v @ map ISourceProperty.name props"
proof (induction props arbitrary: v)
  case Nil
  then show ?case by simp
next
  case (Cons p props)
  from Cons.prems
  have "walkMemberMappings h props srcObj dstObj (v @ [ISourceProperty.name p]) = Inr v1"
    by (simp split: sum.splits)
  from Cons.IH[OF this] show ?case by simp
qed

lemma walkSourceMembers_step:
  "walkSourceMembers h (k # keys) srcObj dstObj v = Inr v2 \<Longrightarrow>
   (if hasOwnProperty srcObj k \<and> k \<notin> set v
    then walkSourceMembers h keys srcObj dstObj (v @ [k]) = Inr v2
    else walkSourceMembers h keys srcObj dstObj v = Inr v2)"
  by (simp split: if_splits sum.splits)

lemma walkSourceMembers_set:
  "walkSourceMembers h keys srcObj dstObj v = Inr v2 \<Longrightarrow>
   set v2 = set v \<union> {k \<in> set keys. hasOwnProperty srcObj k}"
proof (induction keys arbitrary: v)
  case Nil
  then show ?case by simp
next
  case (Cons k keys)
  show ?case
  proof (cases "hasOwnProperty srcObj k \<and> k \<notin> set v")
    case True
    with walkSourceMembers_step[OF Cons.prems]
    have "walkSourceMembers h keys srcObj dstObj (v @ [k]) = Inr v2" by simp
    from Cons.IH[OF this] True show ?thesis by auto
  next
    case False
    with walkSourceMembers_step[OF Cons.prems]
    have "walkSourceMembers h keys srcObj dstObj v = Inr v2" by simp
    from Cons.IH[OF this] False show ?thesis by auto
  qed
qed

lemma walkSourceMembers_once:
  "walkSourceMembers h keys srcObj dstObj v = Inr v2 \<Longrightarrow>
   \<exists>new. v2 = v @ new \<and> distinct new \<and> set new \<inter> set v = {}"
proof (induction keys arbitrary: v)
  case Nil
  then show ?case by simp
next
  case (Cons k keys)
  show ?case
  proof (cases "hasOwnProperty srcObj k \<and> k \<notin> set v")
    case True
    with walkSourceMembers_step[OF Cons.prems]
    have "walkSourceMembers h keys srcObj dstObj (v @ [k]) = Inr v2" by simp
    from Cons.IH[OF this] obtain new where new: "v2 = (v @ [k]) @ new" "distinct new"
      "set new \<inter> set (v @ [k]) = {}" by blast
    have "v2 = v @ (k # new)" using new(1) by simp
    moreover have "distinct (k # new)" using new(2,3) by auto
    moreover have "set (k # new) \<inter> set v = {}" using new(3) True by auto
    ultimately show ?thesis by blast
  next
    case False
    with walkSourceMembers_step[OF Cons.prems]
    have "walkSourceMembers h keys srcObj dstObj v = Inr v2" by simp
    from Cons.IH[OF this] show ?thesis .
  qed
qed


lemma walkSourceMembers_added:
  assumes "walkSourceMembers h keys srcObj dstObj v = Inr v2"
  shows "\<exists>new. v2 = v @ new \<and> distinct new
           \<and> set new = {k \<in> set keys. hasOwnProperty srcObj k} - set v"
proof -
  from walkSourceMembers_once [OF assms] obtain new where new:
    "v2 = v @ new" "distinct new" "set new \<inter> set v = {}" by blast
  from walkSourceMembers_set [OF assms] new(1)
  have "set v \<union> set new = set v \<union> {k \<in> set keys. hasOwnProperty srcObj k}" by simp
  with new(3) have "set new = {k \<in> set keys. hasOwnProperty srcObj k} - set v" by blast
  with new(1,2) show ?thesis by blast
qed

lemma tryHandle_None: "tryHandle key sN dN None = Inr ()"
  by (simp add: tryHandle_def)

lemma tryHandle_Some:
  "msg \<noteq> [] \<Longrightarrow> tryHandle key sN dN (Some msg) =
     Inl (Error (''Mapping '' @ quoted key @ '' is invalid: '' @ msg
                 @ '' (source: '' @ quoted sN @ '', destination: '' @ quoted dN @ '').''))"
  by (simp add: tryHandle_def)

lemma walkSourceMembers_failure:
  "walkSourceMembers (tryHandle key sN dN) keys srcObj dstObj v = Inl e \<Longrightarrow>
   \<exists>k. k \<in> set keys \<and> hasOwnProperty srcObj k \<and> k \<notin> set v \<and> \<not> hasOwnProperty dstObj k
     \<and> tryHandle key sN dN (validateProperty k dstObj) = Inl e"
proof (induction keys arbitrary: v)
  case Nil
  then show ?case by simp
next
  case (Cons k keys)
  show ?case
  proof (cases "hasOwnProperty srcObj k \<and> k \<notin> set v")
    case False
    with Cons.prems have "walkSourceMembers (tryHandle key sN dN) keys srcObj dstObj v = Inl e"
      by (simp split: if_splits)
    from Cons.IH[OF this] show ?thesis by auto
  next
    case True
    show ?thesis
    proof (cases "hasOwnProperty dstObj k")
      case own: True
      then have "tryHandle key sN dN (validateProperty k dstObj) = Inr ()"
        by (simp add: validateProperty_def tryHandle_None)
      with True Cons.prems
      have "walkSourceMembers (tryHandle key sN dN) keys srcObj dstObj (v @ [k]) = Inl e"
        by simp
      from Cons.IH[OF this] show ?thesis by auto
    next
      case False
      then obtain e' where e': "tryHandle key sN dN (validateProperty k dstObj) = Inl e'"
        by (simp add: validateProperty_def tryHandle_def)
      with True Cons.prems have "e' = e" by simp
      with e' True False show ?thesis by auto
    qed
  qed
qed

lemma walkDestinationMembers_first:
  "walkDestinationMembers (tryHandle key sN dN) keys dstObj v =
     (case filter (\<lambda>k. hasOwnProperty dstObj k \<and> k \<notin> set v) keys of
        [] \<Rightarrow> Inr ()
      | k # rest \<Rightarrow>
          tryHandle key sN dN
            (Some (''Destination member '' @ quoted k @ '' does not exist on source type'')))"
proof (induction keys)
  case Nil
  then show ?case by simp
next
  case (Cons k keys)
  have "\<exists>e. tryHandle key sN dN
          (Some (''Destination member '' @ quoted k @ '' does not exist on source type'')) = Inl e"
    by (simp add: tryHandle_def)
  with Cons show ?case by auto
qed


lemma assertMappingConfiguration_typed:
  "sourceTypeClass m = Some S \<Longrightarrow> destinationTypeClass m = Some D \<Longrightarrow>
   assertMappingConfiguration m strict =
     (case walkMemberMappings
             (tryHandle (sourceKey m @ ''=>'' @ destinationKey m) (className S) (className D))
             (properties m) (construct S) (construct D) [] of
        Inl e \<Rightarrow> Inl e
      | Inr v1 \<Rightarrow>
          (case walkSourceMembers
                  (tryHandle (sourceKey m @ ''=>'' @ destinationKey m) (className S) (className D))
                  (forInKeys (construct S)) (construct S) (construct D) v1 of
             Inl e \<Rightarrow> Inl e
           | Inr v2 \<Rightarrow>
               walkDestinationMembers
                 (tryHandle (sourceKey m @ ''=>'' @ destinationKey m) (className S) (className D))
                 (forInKeys (construct D)) (construct D) v2))"
  by (simp only: assertMappingConfiguration_def Let_def option.case prod.case)

lemma assertMappingConfiguration_untyped:
  "sourceTypeClass m = None \<or> destinationTypeClass m = None \<Longrightarrow>
   assertMappingConfiguration m strict =
     (if strict = False then Inr ()
      else Inl (Error (''Mapping '' @ quoted (sourceKey m @ ''=>'' @ destinationKey m)
             @ '' cannot be validated, since mapping.sourceType or mapping.destinationType are unspecified.'')))"
  by (auto simp: assertMappingConfiguration_def Let_def split: option.splits)

text \<open>
  C3. When the source or the destination type reference is absent, validating the mapping
  returns normally in non-strict mode and fails with the "cannot be validated ...
  unspecified" error in strict mode; the configured properties play no part in either
  outcome.
\<close>

theorem missing_type_reference:
  assumes "sourceTypeClass m = None \<or> destinationTypeClass m = None"
  shows "assertMappingConfiguration m False = Inr ()
     \<and> assertMappingConfiguration m True =
         Inl (Error (''Mapping '' @ quoted (sourceKey m @ ''=>'' @ destinationKey m)
                @ '' cannot be validated, since mapping.sourceType or mapping.destinationType are unspecified.''))
     \<and> (\<forall>ps strict. assertMappingConfiguration (m\<lparr>properties := ps\<rparr>) strict
                      = assertMappingConfiguration m strict)"
proof -
  have "sourceTypeClass (m\<lparr>properties := ps\<rparr>) = None
        \<or> destinationTypeClass (m\<lparr>properties := ps\<rparr>) = None" for ps
    using assms by simp
  from assertMappingConfiguration_untyped [OF this] assertMappingConfiguration_untyped [OF assms]
  show ?thesis by simp
qed

theorem missing_type_reference_witness:
  "assertMappingConfiguration
     \<lparr>sourceKey = ''Order'', destinationKey = ''OrderDto'', sourceTypeClass = None,
      destinationTypeClass =
        Some \<lparr>className = ''OrderDto'',
              construct = \<lparr>forInKeys = [''id''], ownKeys = [''id'']\<rparr>\<rparr>,
      properties = [ISourceProperty ''total'' ''total'' None None]\<rparr> False = Inr ()
   \<and> assertMappingConfiguration
     \<lparr>sourceKey = ''Order'', destinationKey = ''OrderDto'', sourceTypeClass = None,
      destinationTypeClass =
        Some \<lparr>className = ''OrderDto'',
              construct = \<lparr>forInKeys = [''id''], ownKeys = [''id'']\<rparr>\<rparr>,
      properties = [ISourceProperty ''total'' ''total'' None None]\<rparr> True =
       Inl (Error (''Mapping '' @ quoted ''Order=>OrderDto''
              @ '' cannot be validated, since mapping.sourceType or mapping.destinationType are unspecified.''))"
  using missing_type_reference
    [of "\<lparr>sourceKey = ''Order'', destinationKey = ''OrderDto'', sourceTypeClass = None,
          destinationTypeClass =
            Some \<lparr>className = ''OrderDto'',
                  construct = \<lparr>forInKeys = [''id''], ownKeys = [''id'']\<rparr>\<rparr>,
          properties = [ISourceProperty ''total'' ''total'' None None]\<rparr>"]
  by simp

text \<open>
  C4. For a mapping with both type references whose walks over the configured properties
  and over the source members produce no failure, the validated names are the names of
  the configured rules and the own enumerable source members. If the destination instance
  has an own enumerable member that is not among them, validation fails with "Destination
  member ... does not exist on source type", naming the first such member in enumeration
  order; if there is none, validation returns normally.
\<close>

theorem remaining_destination_members:
  assumes "sourceTypeClass m = Some S" and "destinationTypeClass m = Some D"
    and "walkMemberMappings
           (tryHandle (sourceKey m @ ''=>'' @ destinationKey m) (className S) (className D))
           (properties m) (construct S) (construct D) [] = Inr v1"
    and "walkSourceMembers
           (tryHandle (sourceKey m @ ''=>'' @ destinationKey m) (className S) (className D))
           (forInKeys (construct S)) (construct S) (construct D) v1 = Inr v2"
  shows "set v2 = ISourceProperty.name ` set (properties m)
                  \<union> {k \<in> set (forInKeys (construct S)). hasOwnProperty (construct S) k}
     \<and> assertMappingConfiguration m strict =
         (case filter (\<lambda>k. hasOwnProperty (construct D) k \<and> k \<notin> set v2)
                 (forInKeys (construct D)) of
            [] \<Rightarrow> Inr ()
          | k # rest \<Rightarrow>
              Inl (Error (''Mapping '' @ quoted (sourceKey m @ ''=>'' @ destinationKey m)
                     @ '' is invalid: Destination member '' @ quoted k
                     @ '' does not exist on source type (source: '' @ quoted (className S)
                     @ '', destination: '' @ quoted (className D) @ '').'')))"
proof -
  have v1: "v1 = map ISourceProperty.name (properties m)"
    using walkMemberMappings_validated [OF assms(3)] by simp
  have "set v2 = set v1 \<union> {k \<in> set (forInKeys (construct S)). hasOwnProperty (construct S) k}"
    by (rule walkSourceMembers_set [OF assms(4)])
  with v1 have validated: "set v2 = ISourceProperty.name ` set (properties m)
      \<union> {k \<in> set (forInKeys (construct S)). hasOwnProperty (construct S) k}"
    by simp
  have "assertMappingConfiguration m strict =
      walkDestinationMembers
        (tryHandle (sourceKey m @ ''=>'' @ destinationKey m) (className S) (className D))
        (forInKeys (construct D)) (construct D) v2"
    using assertMappingConfiguration_typed [OF assms(1,2)] assms(3,4) by simp
  also have "\<dots> =
      (case filter (\<lambda>k. hasOwnProperty (construct D) k \<and> k \<notin> set v2)
              (forInKeys (construct D)) of
         [] \<Rightarrow> Inr ()
       | k # rest \<Rightarrow>
           Inl (Error (''Mapping '' @ quoted (sourceKey m @ ''=>'' @ destinationKey m)
                  @ '' is invalid: Destination member '' @ quoted k
                  @ '' does not exist on source type (source: '' @ quoted (className S)
                  @ '', destination: '' @ quoted (className D) @ '').'')))"
    by (simp add: walkDestinationMembers_first tryHandle_Some split: list.splits)
  finally show ?thesis using validated by simp
qed

theorem remaining_destination_members_witness:
  "assertMappingConfiguration
     \<lparr>sourceKey = ''A'', destinationKey = ''B'',
      sourceTypeClass =
        Some \<lparr>className = ''A'', construct = \<lparr>forInKeys = [''id''], ownKeys = [''id'']\<rparr>\<rparr>,
      destinationTypeClass =
        Some \<lparr>className = ''B'',
              construct = \<lparr>forInKeys = [''id'', ''extra''], ownKeys = [''id'', ''extra'']\<rparr>\<rparr>,
      properties = []\<rparr> True
   = Inl (Error (''Mapping '' @ quoted ''A=>B'' @ '' is invalid: Destination member ''
            @ quoted ''extra'' @ '' does not exist on source type (source: '' @ quoted ''A''
            @ '', destination: '' @ quoted ''B'' @ '').''))
   \<and> assertMappingConfiguration
     \<lparr>sourceKey = ''A'', destinationKey = ''B'',
      sourceTypeClass =
        Some \<lparr>className = ''A'',
              construct = \<lparr>forInKeys = [''id'', ''name''], ownKeys = [''id'', ''name'']\<rparr>\<rparr>,
      destinationTypeClass =
        Some \<lparr>className = ''B'',
              construct = \<lparr>forInKeys = [''id'', ''name''], ownKeys = [''id'', ''name'']\<rparr>\<rparr>,
      properties = []\<rparr> True
   = Inr ()"
  using remaining_destination_members
    [of "\<lparr>sourceKey = ''A'', destinationKey = ''B'',
          sourceTypeClass =
            Some \<lparr>className = ''A'', construct = \<lparr>forInKeys = [''id''], ownKeys = [''id'']\<rparr>\<rparr>,
          destinationTypeClass =
            Some \<lparr>className = ''B'',
                  construct = \<lparr>forInKeys = [''id'', ''extra''], ownKeys = [''id'', ''extra'']\<rparr>\<rparr>,
          properties = []\<rparr>"
        "\<lparr>className = ''A'', construct = \<lparr>forInKeys = [''id''], ownKeys = [''id'']\<rparr>\<rparr>"
        "\<lparr>className = ''B'',
          construct = \<lparr>forInKeys = [''id'', ''extra''], ownKeys = [''id'', ''extra'']\<rparr>\<rparr>"
        "[]" "[''id'']" True]
    remaining_destination_members
    [of "\<lparr>sourceKey = ''A'', destinationKey = ''B'',
          sourceTypeClass =
            Some \<lparr>className = ''A'',
                  construct = \<lparr>forInKeys = [''id'', ''name''], ownKeys = [''id'', ''name'']\<rparr>\<rparr>,
          destinationTypeClass =
            Some \<lparr>className = ''B'',
                  construct = \<lparr>forInKeys = [''id'', ''name''], ownKeys = [''id'', ''name'']\<rparr>\<rparr>,
          properties = []\<rparr>"
        "\<lparr>className = ''A'',
          construct = \<lparr>forInKeys = [''id'', ''name''], ownKeys = [''id'', ''name'']\<rparr>\<rparr>"
        "\<lparr>className = ''B'',
          construct = \<lparr>forInKeys = [''id'', ''name''], ownKeys = [''id'', ''name'']\<rparr>\<rparr>"
        "[]" "[''id'', ''name'']" True]
  by (simp add: hasOwnProperty_def validateProperty_def tryHandle_def)

lemma quoted_inject: "quoted a = quoted b \<longleftrightarrow> a = b"
  by (simp add: quoted_def)

lemma walkSourceMembers_never_validated:
  assumes "n \<in> set v"
  shows "walkSourceMembers (tryHandle key sN dN) keys srcObj dstObj v \<noteq>
     Inl (Error (''Mapping '' @ quoted key @ '' is invalid: Source member '' @ quoted n
            @ '' is configured to be mapped, but does not exist on destination type (source: ''
            @ quoted sN @ '', destination: '' @ quoted dN @ '').''))"
proof
  assume fails: "walkSourceMembers (tryHandle key sN dN) keys srcObj dstObj v =
     Inl (Error (''Mapping '' @ quoted key @ '' is invalid: Source member '' @ quoted n
            @ '' is configured to be mapped, but does not exist on destination type (source: ''
            @ quoted sN @ '', destination: '' @ quoted dN @ '').''))"
  from walkSourceMembers_failure [OF fails] obtain k where k: "k \<notin> set v"
    "\<not> hasOwnProperty dstObj k"
    "tryHandle key sN dN (validateProperty k dstObj) =
     Inl (Error (''Mapping '' @ quoted key @ '' is invalid: Source member '' @ quoted n
            @ '' is configured to be mapped, but does not exist on destination type (source: ''
            @ quoted sN @ '', destination: '' @ quoted dN @ '').''))"
    by blast
  from k(2,3) have "quoted k = quoted n"
    by (simp add: validateProperty_def tryHandle_def)
  with k(1) assms show False by (simp add: quoted_inject)
qed

lemma walkDestinationMembers_never_validated:
  assumes "n \<in> set v"
  shows "walkDestinationMembers (tryHandle key sN dN) keys dstObj v \<noteq>
     Inl (Error (''Mapping '' @ quoted key @ '' is invalid: Destination member '' @ quoted n
            @ '' does not exist on source type (source: '' @ quoted sN
            @ '', destination: '' @ quoted dN @ '').''))"
proof (cases "filter (\<lambda>k. hasOwnProperty dstObj k \<and> k \<notin> set v) keys")
  case Nil
  then show ?thesis by (simp add: walkDestinationMembers_first)
next
  case (Cons k rest)
  then have "k \<in> set (filter (\<lambda>k. hasOwnProperty dstObj k \<and> k \<notin> set v) keys)" by simp
  then have "k \<notin> set v" by simp
  with assms have "k \<noteq> n" by blast
  with Cons show ?thesis
    by (simp add: walkDestinationMembers_first tryHandle_def quoted_inject)
qed

text \<open>
  C2. The walk over the configured properties marks the name of every rule as validated.
  A name already in the validated set is skipped by the walk over the source members and
  by the walk over the destination members, and the walk over the source members adds
  every own enumerable source member that is not yet validated, each once. So a member
  that bears the name of a configured rule is never reported by the source walk, and a
  member that bears the name of a configured rule or of a source member the source walk
  has validated never triggers "Destination member ... does not exist on source type".
\<close>

theorem validated_names_skipped:
  assumes "sourceTypeClass m = Some S" and "destinationTypeClass m = Some D"
    and "walkMemberMappings
           (tryHandle (sourceKey m @ ''=>'' @ destinationKey m) (className S) (className D))
           (properties m) (construct S) (construct D) [] = Inr v1"
  shows "v1 = map ISourceProperty.name (properties m)
     \<and> (\<forall>n\<in>set v. walkSourceMembers h (n # keys) srcObj dstObj v
                      = walkSourceMembers h keys srcObj dstObj v)
     \<and> (\<forall>n\<in>set v. walkDestinationMembers h (n # keys) dstObj v
                      = walkDestinationMembers h keys dstObj v)
     \<and> (\<forall>n\<in>set v1.
           walkSourceMembers
             (tryHandle (sourceKey m @ ''=>'' @ destinationKey m) (className S) (className D))
             (forInKeys (construct S)) (construct S) (construct D) v1 \<noteq>
           Inl (Error (''Mapping '' @ quoted (sourceKey m @ ''=>'' @ destinationKey m)
                  @ '' is invalid: Source member '' @ quoted n
                  @ '' is configured to be mapped, but does not exist on destination type (source: ''
                  @ quoted (className S) @ '', destination: '' @ quoted (className D) @ '').'')))
     \<and> (\<forall>v2.
           walkSourceMembers
             (tryHandle (sourceKey m @ ''=>'' @ destinationKey m) (className S) (className D))
             (forInKeys (construct S)) (construct S) (construct D) v1 = Inr v2 \<longrightarrow>
           (\<exists>new. v2 = v1 @ new \<and> distinct new
              \<and> set new = {k \<in> set (forInKeys (construct S)).
                              hasOwnProperty (construct S) k} - set v1)
           \<and> (\<forall>n\<in>set v2.
                 assertMappingConfiguration m strict \<noteq>
                 Inl (Error (''Mapping '' @ quoted (sourceKey m @ ''=>'' @ destinationKey m)
                        @ '' is invalid: Destination member '' @ quoted n
                        @ '' does not exist on source type (source: '' @ quoted (className S)
                        @ '', destination: '' @ quoted (className D) @ '').''))))"
proof (intro conjI)
  show "v1 = map ISourceProperty.name (properties m)"
    using walkMemberMappings_validated [OF assms(3)] by simp
  show "\<forall>n\<in>set v. walkSourceMembers h (n # keys) srcObj dstObj v
                      = walkSourceMembers h keys srcObj dstObj v"
    by simp
  show "\<forall>n\<in>set v. walkDestinationMembers h (n # keys) dstObj v
                      = walkDestinationMembers h keys dstObj v"
    by simp
  show "\<forall>n\<in>set v1.
           walkSourceMembers
             (tryHandle (sourceKey m @ ''=>'' @ destinationKey m) (className S) (className D))
             (forInKeys (construct S)) (construct S) (construct D) v1 \<noteq>
           Inl (Error (''Mapping '' @ quoted (sourceKey m @ ''=>'' @ destinationKey m)
                  @ '' is invalid: Source member '' @ quoted n
                  @ '' is configured to be mapped, but does not exist on destination type (source: ''
                  @ quoted (className S) @ '', destination: '' @ quoted (className D) @ '').''))"
    by (intro ballI walkSourceMembers_never_validated)
  show "\<forall>v2.
           walkSourceMembers
             (tryHandle (sourceKey m @ ''=>'' @ destinationKey m) (className S) (className D))
             (forInKeys (construct S)) (construct S) (construct D) v1 = Inr v2 \<longrightarrow>
           (\<exists>new. v2 = v1 @ new \<and> distinct new
              \<and> set new = {k \<in> set (forInKeys (construct S)).
                              hasOwnProperty (construct S) k} - set v1)
           \<and> (\<forall>n\<in>set v2.
                 assertMappingConfiguration m strict \<noteq>
                 Inl (Error (''Mapping '' @ quoted (sourceKey m @ ''=>'' @ destinationKey m)
                        @ '' is invalid: Destination member '' @ quoted n
                        @ '' does not exist on source type (source: '' @ quoted (className S)
                        @ '', destination: '' @ quoted (className D) @ '').'')))"
  proof (intro allI impI conjI ballI)
    fix v2 n
    assume b: "walkSourceMembers
             (tryHandle (sourceKey m @ ''=>'' @ destinationKey m) (className S) (className D))
             (forInKeys (construct S)) (construct S) (construct D) v1 = Inr v2"
    show "\<exists>new. v2 = v1 @ new \<and> distinct new
              \<and> set new = {k \<in> set (forInKeys (construct S)).
                              hasOwnProperty (construct S) k} - set v1"
      by (rule walkSourceMembers_added [OF b])
    assume n: "n \<in> set v2"
    have "assertMappingConfiguration m strict =
        walkDestinationMembers
          (tryHandle (sourceKey m @ ''=>'' @ destinationKey m) (className S) (className D))
          (forInKeys (construct D)) (construct D) v2"
      using assertMappingConfiguration_typed [OF assms(1,2)] assms(3) b by simp
    with walkDestinationMembers_never_validated [OF n]
    show "assertMappingConfiguration m strict \<noteq>
          Inl (Error (''Mapping '' @ quoted (sourceKey m @ ''=>'' @ destinationKey m)
                 @ '' is invalid: Destination member '' @ quoted n
                 @ '' does not exist on source type (source: '' @ quoted (className S)
                 @ '', destination: '' @ quoted (className D) @ '').''))"
      by simp
  qed
qed

theorem validated_names_skipped_witness:
  "walkMemberMappings (tryHandle (''A'' @ ''=>'' @ ''B'') ''A'' ''B'')
     [ISourceProperty ''secret'' ''secret''
        (Some \<lparr>IDestinationProperty.name = ''secret'',
                IDestinationProperty.destinationPropertyName = ''secret'',
                ignore = True, sourceMapping = True\<rparr>) None]
     \<lparr>forInKeys = [''id'', ''secret''], ownKeys = [''id'', ''secret'']\<rparr>
     \<lparr>forInKeys = [''id''], ownKeys = [''id'']\<rparr> [] = Inr [''secret'']
   \<and> walkSourceMembers (tryHandle (''A'' @ ''=>'' @ ''B'') ''A'' ''B'')
     [''id'', ''secret'']
     \<lparr>forInKeys = [''id'', ''secret''], ownKeys = [''id'', ''secret'']\<rparr>
     \<lparr>forInKeys = [''id''], ownKeys = [''id'']\<rparr> [''secret''] = Inr [''secret'', ''id'']
   \<and> assertMappingConfiguration
     \<lparr>sourceKey = ''A'', destinationKey = ''B'',
      sourceTypeClass =
        Some \<lparr>className = ''A'',
              construct = \<lparr>forInKeys = [''id'', ''secret''], ownKeys = [''id'', ''secret'']\<rparr>\<rparr>,
      destinationTypeClass =
        Some \<lparr>className = ''B'', construct = \<lparr>forInKeys = [''id''], ownKeys = [''id'']\<rparr>\<rparr>,
      properties =
        [ISourceProperty ''secret'' ''secret''
           (Some \<lparr>IDestinationProperty.name = ''secret'',
                   IDestinationProperty.destinationPropertyName = ''secret'',
                   ignore = True, sourceMapping = True\<rparr>) None]\<rparr> True = Inr ()"
  using validated_names_skipped
    [of "\<lparr>sourceKey = ''A'', destinationKey = ''B'',
          sourceTypeClass =
            Some \<lparr>className = ''A'',
                  construct = \<lparr>forInKeys = [''id'', ''secret''], ownKeys = [''id'', ''secret'']\<rparr>\<rparr>,
          destinationTypeClass =
            Some \<lparr>className = ''B'', construct = \<lparr>forInKeys = [''id''], ownKeys = [''id'']\<rparr>\<rparr>,
          properties =
            [ISourceProperty ''secret'' ''secret''
               (Some \<lparr>IDestinationProperty.name = ''secret'',
                       IDestinationProperty.destinationPropertyName = ''secret'',
                       ignore = True, sourceMapping = True\<rparr>) None]\<rparr>"
        "\<lparr>className = ''A'',
          construct = \<lparr>forInKeys = [''id'', ''secret''], ownKeys = [''id'', ''secret'']\<rparr>\<rparr>"
        "\<lparr>className = ''B'', construct = \<lparr>forInKeys = [''id''], ownKeys = [''id'']\<rparr>\<rparr>"
        "[''secret'']"]
  by (simp add: assertMappingConfiguration_def validatePropertyMapping_def
        validateSourcePropertyMapping_def validateProperty_def hasOwnProperty_def
        tryHandle_def)

text \<open>
  C2, the destination side. Only the rule's own name is marked. A rule named \<open>first\<close>
  whose destination rule is named \<open>given\<close> passes its own check, and the destination
  member \<open>given\<close> it targets is then reported by the walk over the destination members.
\<close>

theorem destination_side_member_flagged:
  "validatePropertyMapping
     (ISourceProperty ''first'' ''given''
        (Some \<lparr>IDestinationProperty.name = ''given'',
                IDestinationProperty.destinationPropertyName = ''given'',
                ignore = False, sourceMapping = False\<rparr>) None)
     ''first''
     \<lparr>forInKeys = [''first''], ownKeys = [''first'']\<rparr>
     \<lparr>forInKeys = [''given''], ownKeys = [''given'']\<rparr> = Inr None
   \<and> assertMappingConfiguration
     \<lparr>sourceKey = ''A'', destinationKey = ''B'',
      sourceTypeClass =
        Some \<lparr>className = ''A'',
              construct = \<lparr>forInKeys = [''first''], ownKeys = [''first'']\<rparr>\<rparr>,
      destinationTypeClass =
        Some \<lparr>className = ''B'',
              construct = \<lparr>forInKeys = [''given''], ownKeys = [''given'']\<rparr>\<rparr>,
      properties =
        [ISourceProperty ''first'' ''given''
           (Some \<lparr>IDestinationProperty.name = ''given'',
                   IDestinationProperty.destinationPropertyName = ''given'',
                   ignore = False, sourceMapping = False\<rparr>) None]\<rparr> True
     = Inl (Error (''Mapping '' @ quoted ''A=>B'' @ '' is invalid: Destination member ''
              @ quoted ''given'' @ '' does not exist on source type (source: '' @ quoted ''A''
              @ '', destination: '' @ quoted ''B'' @ '').''))"
  by (simp add: assertMappingConfiguration_def validatePropertyMapping_def
        validateDestinationPropertyMapping_def validateProperty_def hasOwnProperty_def
        tryHandle_def)

lemma walkMemberMappings_fails:
  "r \<in> set props \<Longrightarrow>
   validatePropertyMapping r (ISourceProperty.name r) srcObj dstObj = Inr msg \<Longrightarrow>
   h msg = Inl e \<Longrightarrow>
   \<exists>e'. walkMemberMappings h props srcObj dstObj v = Inl e'"
proof (induction props arbitrary: v)
  case Nil
  then show ?case by simp
next
  case (Cons p props)
  show ?case
  proof (cases "validatePropertyMapping p (ISourceProperty.name p) srcObj dstObj")
    case (Inl e')
    then show ?thesis by simp
  next
    case (Inr msg')
    show ?thesis
    proof (cases "h msg'")
      case (Inl e')
      with Inr show ?thesis by simp
    next
      case ok: (Inr u)
      with Inr Cons.prems have "r \<in> set props" by auto
      from Cons.IH [OF this Cons.prems(2,3)] Inr ok show ?thesis by simp
    qed
  qed
qed

lemma walkMemberMappings_all_pass:
  "(\<forall>p\<in>set props.
      validatePropertyMapping p (ISourceProperty.name p) srcObj dstObj = Inr None) \<Longrightarrow>
   walkMemberMappings (tryHandle key sN dN) props srcObj dstObj v =
     Inr (v @ map ISourceProperty.name props)"
  by (induction props arbitrary: v) (simp_all add: tryHandle_None)

lemma walkMemberMappings_only_failure:
  "r \<in> set props \<Longrightarrow>
   (\<forall>p\<in>set props. p \<noteq> r \<longrightarrow>
      validatePropertyMapping p (ISourceProperty.name p) srcObj dstObj = Inr None) \<Longrightarrow>
   validatePropertyMapping r (ISourceProperty.name r) srcObj dstObj = Inr (Some msg) \<Longrightarrow>
   msg \<noteq> [] \<Longrightarrow>
   walkMemberMappings (tryHandle key sN dN) props srcObj dstObj v =
     Inl (Error (''Mapping '' @ quoted key @ '' is invalid: '' @ msg
                 @ '' (source: '' @ quoted sN @ '', destination: '' @ quoted dN @ '').''))"
proof (induction props arbitrary: v)
  case Nil
  then show ?case by simp
next
  case (Cons p props)
  show ?case
  proof (cases "p = r")
    case True
    with Cons.prems(3) tryHandle_Some [OF Cons.prems(4), of key sN dN] show ?thesis
      by simp
  next
    case False
    with Cons.prems have pass: "validatePropertyMapping p (ISourceProperty.name p) srcObj dstObj
        = Inr None" and r: "r \<in> set props"
      and rest: "\<forall>p\<in>set props. p \<noteq> r \<longrightarrow>
        validatePropertyMapping p (ISourceProperty.name p) srcObj dstObj = Inr None"
      by auto
    from Cons.IH [OF r rest Cons.prems(3,4)] pass show ?thesis
      by (simp add: tryHandle_None)
  qed
qed

lemma walkSourceMembers_all_pass:
  "(\<forall>k\<in>set keys. hasOwnProperty srcObj k \<and> k \<notin> set v \<longrightarrow> hasOwnProperty dstObj k) \<Longrightarrow>
   \<exists>v2. walkSourceMembers (tryHandle key sN dN) keys srcObj dstObj v = Inr v2"
proof (induction keys arbitrary: v)
  case Nil
  then show ?case by simp
next
  case (Cons k keys)
  show ?case
  proof (cases "hasOwnProperty srcObj k \<and> k \<notin> set v")
    case False
    from Cons.prems have "\<forall>k\<in>set keys. hasOwnProperty srcObj k \<and> k \<notin> set v \<longrightarrow>
        hasOwnProperty dstObj k" by simp
    from Cons.IH [OF this] False show ?thesis by auto
  next
    case True
    with Cons.prems have own: "hasOwnProperty dstObj k" by simp
    from Cons.prems have "\<forall>k'\<in>set keys. hasOwnProperty srcObj k' \<and> k' \<notin> set (v @ [k]) \<longrightarrow>
        hasOwnProperty dstObj k'" by simp
    from Cons.IH [OF this] True own show ?thesis
      by (simp add: validateProperty_def tryHandle_None)
  qed
qed

text \<open>
  C6. For a mapping with both type references and a configured rule whose resolved
  destination rule has \<open>ignore\<close> and \<open>sourceMapping\<close> set: when the destination instance
  owns the rule's name, validation of the mapping fails. When moreover the source instance
  owns the rule's name and nothing else in the mapping fails (the check of every other
  rule reports no error, every own enumerable source member that no rule names is owned
  by the destination instance, and every own enumerable destination member is named by a
  rule or is an own enumerable source member), validation of the mapping fails if and
  only if the destination instance owns the rule's name: with "Source member ... is
  ignored, but does exist on destination type" when it does, and returning normally when
  it does not.
\<close>

theorem ignored_source_member:
  assumes "sourceTypeClass m = Some S" and "destinationTypeClass m = Some D"
    and "r \<in> set (properties m)"
    and "getDestinationProperty (ISourceProperty.destinationPropertyName r) r = Some d"
    and "ignore d" and "sourceMapping d"
  shows "(hasOwnProperty (construct D) (ISourceProperty.name r) \<longrightarrow>
            (\<exists>e. assertMappingConfiguration m strict = Inl e))
     \<and> (hasOwnProperty (construct S) (ISourceProperty.name r)
        \<and> (\<forall>p\<in>set (properties m). p \<noteq> r \<longrightarrow>
              validatePropertyMapping p (ISourceProperty.name p) (construct S) (construct D)
                = Inr None)
        \<and> (\<forall>k\<in>set (forInKeys (construct S)).
              hasOwnProperty (construct S) k \<and> k \<notin> ISourceProperty.name ` set (properties m)
              \<longrightarrow> hasOwnProperty (construct D) k)
        \<and> (\<forall>k\<in>set (forInKeys (construct D)).
              hasOwnProperty (construct D) k \<longrightarrow>
                k \<in> ISourceProperty.name ` set (properties m)
                \<or> k \<in> set (forInKeys (construct S)) \<and> hasOwnProperty (construct S) k)
        \<longrightarrow>
          ((\<exists>e. assertMappingConfiguration m strict = Inl e)
             \<longleftrightarrow> hasOwnProperty (construct D) (ISourceProperty.name r))
        \<and> (hasOwnProperty (construct D) (ISourceProperty.name r) \<longrightarrow>
             assertMappingConfiguration m strict =
               Inl (Error (''Mapping '' @ quoted (sourceKey m @ ''=>'' @ destinationKey m)
                      @ '' is invalid: Source member '' @ quoted (ISourceProperty.name r)
                      @ '' is ignored, but does exist on destination type (source: ''
                      @ quoted (className S) @ '', destination: '' @ quoted (className D)
                      @ '').'')))
        \<and> (\<not> hasOwnProperty (construct D) (ISourceProperty.name r) \<longrightarrow>
             assertMappingConfiguration m strict = Inr ()))"
proof (intro conjI impI)
  let ?n = "ISourceProperty.name r"
  let ?h = "tryHandle (sourceKey m @ ''=>'' @ destinationKey m) (className S) (className D)"
  have check: "validatePropertyMapping r ?n (construct S) (construct D) =
      Inr (validateSourcePropertyMapping r d ?n (construct S) (construct D))"
    using validatePropertyMapping_resolved [OF assms(4)] assms(6) by simp
  {
    assume own: "hasOwnProperty (construct D) ?n"
    have "\<exists>msg. validateSourcePropertyMapping r d ?n (construct S) (construct D) = Some msg
            \<and> msg \<noteq> []"
      using own assms(5)
      by (cases "hasOwnProperty (construct S) ?n")
         (simp_all add: validateSourcePropertyMapping_def)
    then obtain msg where msg:
      "validateSourcePropertyMapping r d ?n (construct S) (construct D) = Some msg"
      "msg \<noteq> []"
      by blast
    have "\<exists>e'. walkMemberMappings ?h (properties m) (construct S) (construct D) [] = Inl e'"
      using walkMemberMappings_fails [OF assms(3)] check msg tryHandle_Some [OF msg(2)]
      by simp
    then show "\<exists>e. assertMappingConfiguration m strict = Inl e"
      using assertMappingConfiguration_typed [OF assms(1,2)] by auto
  }
  assume pre: "hasOwnProperty (construct S) ?n
     \<and> (\<forall>p\<in>set (properties m). p \<noteq> r \<longrightarrow>
          validatePropertyMapping p (ISourceProperty.name p) (construct S) (construct D)
            = Inr None)
     \<and> (\<forall>k\<in>set (forInKeys (construct S)).
          hasOwnProperty (construct S) k \<and> k \<notin> ISourceProperty.name ` set (properties m)
          \<longrightarrow> hasOwnProperty (construct D) k)
     \<and> (\<forall>k\<in>set (forInKeys (construct D)).
          hasOwnProperty (construct D) k \<longrightarrow>
            k \<in> ISourceProperty.name ` set (properties m)
            \<or> k \<in> set (forInKeys (construct S)) \<and> hasOwnProperty (construct S) k)"
  then have src: "hasOwnProperty (construct S) ?n"
    and others: "\<forall>p\<in>set (properties m). p \<noteq> r \<longrightarrow>
          validatePropertyMapping p (ISourceProperty.name p) (construct S) (construct D)
            = Inr None"
    and srcs: "\<forall>k\<in>set (forInKeys (construct S)).
          hasOwnProperty (construct S) k \<and> k \<notin> ISourceProperty.name ` set (properties m)
          \<longrightarrow> hasOwnProperty (construct D) k"
    and dsts: "\<forall>k\<in>set (forInKeys (construct D)).
          hasOwnProperty (construct D) k \<longrightarrow>
            k \<in> ISourceProperty.name ` set (properties m)
            \<or> k \<in> set (forInKeys (construct S)) \<and> hasOwnProperty (construct S) k"
    by blast+
  have fails: "assertMappingConfiguration m strict =
      Inl (Error (''Mapping '' @ quoted (sourceKey m @ ''=>'' @ destinationKey m)
             @ '' is invalid: Source member '' @ quoted ?n
             @ '' is ignored, but does exist on destination type (source: ''
             @ quoted (className S) @ '', destination: '' @ quoted (className D)
             @ '').''))"
    if own: "hasOwnProperty (construct D) ?n"
  proof -
    have "validatePropertyMapping r ?n (construct S) (construct D) =
        Inr (Some (''Source member '' @ quoted ?n
                   @ '' is ignored, but does exist on destination type''))"
      using check src own assms(5) by (simp add: validateSourcePropertyMapping_def)
    from walkMemberMappings_only_failure [OF assms(3) others this]
    have "walkMemberMappings ?h (properties m) (construct S) (construct D) [] =
        Inl (Error (''Mapping '' @ quoted (sourceKey m @ ''=>'' @ destinationKey m)
             @ '' is invalid: Source member '' @ quoted ?n
             @ '' is ignored, but does exist on destination type (source: ''
             @ quoted (className S) @ '', destination: '' @ quoted (className D)
             @ '').''))"
      by simp
    then show ?thesis
      using assertMappingConfiguration_typed [OF assms(1,2), of strict] by simp
  qed
  have passes: "assertMappingConfiguration m strict = Inr ()"
    if absent: "\<not> hasOwnProperty (construct D) ?n"
  proof -
    have "validatePropertyMapping r ?n (construct S) (construct D) = Inr None"
      using check src absent assms(5) by (simp add: validateSourcePropertyMapping_def)
    with others have "\<forall>p\<in>set (properties m).
        validatePropertyMapping p (ISourceProperty.name p) (construct S) (construct D)
          = Inr None"
      by metis
    from walkMemberMappings_all_pass [OF this]
    have a: "walkMemberMappings ?h (properties m) (construct S) (construct D) [] =
        Inr (map ISourceProperty.name (properties m))"
      by simp
    from srcs have "\<forall>k\<in>set (forInKeys (construct S)).
        hasOwnProperty (construct S) k
        \<and> k \<notin> set (map ISourceProperty.name (properties m))
        \<longrightarrow> hasOwnProperty (construct D) k"
      by simp
    from walkSourceMembers_all_pass [OF this] obtain v2 where
      b: "walkSourceMembers ?h (forInKeys (construct S)) (construct S) (construct D)
            (map ISourceProperty.name (properties m)) = Inr v2"
      by blast
    from walkSourceMembers_set [OF b]
    have v2: "set v2 = ISourceProperty.name ` set (properties m)
        \<union> {k \<in> set (forInKeys (construct S)). hasOwnProperty (construct S) k}"
      by simp
    have "filter (\<lambda>k. hasOwnProperty (construct D) k \<and> k \<notin> set v2)
            (forInKeys (construct D)) = []"
      using dsts v2 by (auto simp: filter_empty_conv)
    then have "walkDestinationMembers ?h (forInKeys (construct D)) (construct D) v2 = Inr ()"
      by (simp add: walkDestinationMembers_first)
    then show ?thesis
      using assertMappingConfiguration_typed [OF assms(1,2), of strict] a b by simp
  qed
  show "(\<exists>e. assertMappingConfiguration m strict = Inl e)
          \<longleftrightarrow> hasOwnProperty (construct D) ?n"
    using fails passes by (cases "hasOwnProperty (construct D) ?n") simp_all
  show "assertMappingConfiguration m strict =
      Inl (Error (''Mapping '' @ quoted (sourceKey m @ ''=>'' @ destinationKey m)
             @ '' is invalid: Source member '' @ quoted ?n
             @ '' is ignored, but does exist on destination type (source: ''
             @ quoted (className S) @ '', destination: '' @ quoted (className D)
             @ '').''))"
    if "hasOwnProperty (construct D) ?n"
    using fails that by blast
  show "assertMappingConfiguration m strict = Inr ()"
    if "\<not> hasOwnProperty (construct D) ?n"
    using passes that by blast
qed

theorem ignored_source_member_witness:
  "assertMappingConfiguration
     \<lparr>sourceKey = ''A'', destinationKey = ''B'',
      sourceTypeClass =
        Some \<lparr>className = ''A'',
              construct = \<lparr>forInKeys = [''id'', ''secret''], ownKeys = [''id'', ''secret'']\<rparr>\<rparr>,
      destinationTypeClass =
        Some \<lparr>className = ''B'',
              construct = \<lparr>forInKeys = [''id'', ''secret''], ownKeys = [''id'', ''secret'']\<rparr>\<rparr>,
      properties =
        [ISourceProperty ''secret'' ''secret''
           (Some \<lparr>IDestinationProperty.name = ''secret'',
                   IDestinationProperty.destinationPropertyName = ''secret'',
                   ignore = True, sourceMapping = True\<rparr>) None]\<rparr> True
   = Inl (Error (''Mapping '' @ quoted ''A=>B'' @ '' is invalid: Source member ''
            @ quoted ''secret'' @ '' is ignored, but does exist on destination type (source: ''
            @ quoted ''A'' @ '', destination: '' @ quoted ''B'' @ '').''))
   \<and> assertMappingConfiguration
     \<lparr>sourceKey = ''A'', destinationKey = ''B'',
      sourceTypeClass =
        Some \<lparr>className = ''A'',
              construct = \<lparr>forInKeys = [''id'', ''secret''], ownKeys = [''id'', ''secret'']\<rparr>\<rparr>,
      destinationTypeClass =
        Some \<lparr>className = ''B'',
              construct = \<lparr>forInKeys = [''id''], ownKeys = [''id'']\<rparr>\<rparr>,
      properties =
        [ISourceProperty ''secret'' ''secret''
           (Some \<lparr>IDestinationProperty.name = ''secret'',
                   IDestinationProperty.destinationPropertyName = ''secret'',
                   ignore = True, sourceMapping = True\<rparr>) None]\<rparr> True
   = Inr ()"
proof -
  let ?d = "\<lparr>IDestinationProperty.name = ''secret'',
             IDestinationProperty.destinationPropertyName = ''secret'',
             ignore = True, sourceMapping = True\<rparr>"
  let ?r = "ISourceProperty ''secret'' ''secret'' (Some ?d) None"
  let ?S = "\<lparr>className = ''A'',
             construct = \<lparr>forInKeys = [''id'', ''secret''], ownKeys = [''id'', ''secret'']\<rparr>\<rparr>"
  let ?D3 = "\<lparr>className = ''B'',
              construct = \<lparr>forInKeys = [''id'', ''secret''], ownKeys = [''id'', ''secret'']\<rparr>\<rparr>"
  let ?D2 = "\<lparr>className = ''B'', construct = \<lparr>forInKeys = [''id''], ownKeys = [''id'']\<rparr>\<rparr>"
  let ?m3 = "\<lparr>sourceKey = ''A'', destinationKey = ''B'', sourceTypeClass = Some ?S,
              destinationTypeClass = Some ?D3, properties = [?r]\<rparr>"
  let ?m2 = "\<lparr>sourceKey = ''A'', destinationKey = ''B'', sourceTypeClass = Some ?S,
              destinationTypeClass = Some ?D2, properties = [?r]\<rparr>"
  have resolved: "getDestinationProperty (ISourceProperty.destinationPropertyName ?r) ?r = Some ?d"
    by simp
  have flags: "ignore ?d" "sourceMapping ?d"
    by simp_all
  have pre3: "hasOwnProperty (construct ?D3) (ISourceProperty.name ?r)
     \<and> hasOwnProperty (construct ?S) (ISourceProperty.name ?r)
     \<and> (\<forall>p\<in>set (properties ?m3). p \<noteq> ?r \<longrightarrow>
          validatePropertyMapping p (ISourceProperty.name p) (construct ?S) (construct ?D3)
            = Inr None)
     \<and> (\<forall>k\<in>set (forInKeys (construct ?S)).
          hasOwnProperty (construct ?S) k \<and> k \<notin> ISourceProperty.name ` set (properties ?m3)
          \<longrightarrow> hasOwnProperty (construct ?D3) k)
     \<and> (\<forall>k\<in>set (forInKeys (construct ?D3)).
          hasOwnProperty (construct ?D3) k \<longrightarrow>
            k \<in> ISourceProperty.name ` set (properties ?m3)
            \<or> k \<in> set (forInKeys (construct ?S)) \<and> hasOwnProperty (construct ?S) k)"
    by (simp add: hasOwnProperty_def)
  have pre2: "\<not> hasOwnProperty (construct ?D2) (ISourceProperty.name ?r)
     \<and> hasOwnProperty (construct ?S) (ISourceProperty.name ?r)
     \<and> (\<forall>p\<in>set (properties ?m2). p \<noteq> ?r \<longrightarrow>
          validatePropertyMapping p (ISourceProperty.name p) (construct ?S) (construct ?D2)
            = Inr None)
     \<and> (\<forall>k\<in>set (forInKeys (construct ?S)).
          hasOwnProperty (construct ?S) k \<and> k \<notin> ISourceProperty.name ` set (properties ?m2)
          \<longrightarrow> hasOwnProperty (construct ?D2) k)
     \<and> (\<forall>k\<in>set (forInKeys (construct ?D2)).
          hasOwnProperty (construct ?D2) k \<longrightarrow>
            k \<in> ISourceProperty.name ` set (properties ?m2)
            \<or> k \<in> set (forInKeys (construct ?S)) \<and> hasOwnProperty (construct ?S) k)"
    by (simp add: hasOwnProperty_def)
  have "assertMappingConfiguration ?m3 True =
      Inl (Error (''Mapping '' @ quoted (sourceKey ?m3 @ ''=>'' @ destinationKey ?m3)
             @ '' is invalid: Source member '' @ quoted (ISourceProperty.name ?r)
             @ '' is ignored, but does exist on destination type (source: ''
             @ quoted (className ?S) @ '', destination: '' @ quoted (className ?D3)
             @ '').''))"
    using ignored_source_member [of ?m3 ?S ?D3 ?r ?d True, OF _ _ _ resolved flags] pre3
    by simp
  moreover have "assertMappingConfiguration ?m2 True = Inr ()"
    using ignored_source_member [of ?m2 ?S ?D2 ?r ?d True, OF _ _ _ resolved flags] pre2
    by simp
  ultimately show ?thesis by simp
qed

text \<open>
  C6, without the preconditions. Validation also fails when the source instance lacks the
  ignored name, although the destination instance does not own it.
\<close>

theorem ignored_member_missing_on_source:
  "assertMappingConfiguration
     \<lparr>sourceKey = ''A'', destinationKey = ''B'',
      sourceTypeClass =
        Some \<lparr>className = ''A'', construct = \<lparr>forInKeys = [''id''], ownKeys = [''id'']\<rparr>\<rparr>,
      destinationTypeClass =
        Some \<lparr>className = ''B'', construct = \<lparr>forInKeys = [''id''], ownKeys = [''id'']\<rparr>\<rparr>,
      properties =
        [ISourceProperty ''secret'' ''secret''
           (Some \<lparr>IDestinationProperty.name = ''secret'',
                   IDestinationProperty.destinationPropertyName = ''secret'',
                   ignore = True, sourceMapping = True\<rparr>) None]\<rparr> True
   = Inl (Error (''Mapping '' @ quoted ''A=>B'' @ '' is invalid: Source member ''
            @ quoted ''secret'' @ '' is configured, but does not exist on source type (source: ''
            @ quoted ''A'' @ '', destination: '' @ quoted ''B'' @ '').''))
   \<and> \<not> hasOwnProperty \<lparr>forInKeys = [''id''], ownKeys = [''id'']\<rparr> ''secret''
   \<and> ''secret'' \<notin> set (forInKeys \<lparr>forInKeys = [''id''], ownKeys = [''id'']\<rparr>)"
  by (simp add: assertMappingConfiguration_def validatePropertyMapping_def
        validateSourcePropertyMapping_def hasOwnProperty_def tryHandle_def)

text \<open>
  C8. A rule with neither a destination nor children (or with an empty sequence of
  children) resolves to \<open>null\<close>, and \<open>validatePropertyMapping\<close> reads \<open>sourceMapping\<close>
  of it: the call throws a \<open>TypeError\<close> instead of returning a message, and so does the
  validation of a mapping that holds such a rule.
\<close>

theorem null_destination_dereferenced:
  "validatePropertyMapping (ISourceProperty nm dn None None) member srcObj dstObj = Inl TypeError
   \<and> validatePropertyMapping (ISourceProperty nm dn None (Some [])) member srcObj dstObj
       = Inl TypeError
   \<and> assertMappingConfiguration
        \<lparr>sourceKey = ''A'', destinationKey = ''B'',
         sourceTypeClass =
           Some \<lparr>className = ''A'', construct = \<lparr>forInKeys = [''id''], ownKeys = [''id'']\<rparr>\<rparr>,
         destinationTypeClass =
           Some \<lparr>className = ''B'', construct = \<lparr>forInKeys = [''id''], ownKeys = [''id'']\<rparr>\<rparr>,
         properties = [ISourceProperty ''id'' ''id'' None None]\<rparr> strict = Inl TypeError"
  by (simp add: validatePropertyMapping_def assertMappingConfiguration_def)

section \<open>The walk over the registry\<close>

lemma loop_valid:
  "assertConfigurationIsValid_loop keys own strict = Inr () \<longleftrightarrow>
   (\<forall>k\<in>set keys. \<forall>m'. own k = Some m' \<longrightarrow> assertMappingConfiguration m' strict = Inr ())"
  by (induction keys) (auto split: option.splits sum.splits)

lemma loop_skips_valid:
  "(\<forall>k\<in>set pre. \<forall>m'. own k = Some m' \<longrightarrow> assertMappingConfiguration m' strict = Inr ()) \<Longrightarrow>
   assertConfigurationIsValid_loop (pre @ rest) own strict =
   assertConfigurationIsValid_loop rest own strict"
  by (induction pre) (auto split: option.splits)

lemma loop_failure:
  "assertConfigurationIsValid_loop keys own strict = Inl e \<Longrightarrow>
   \<exists>pre key post m. keys = pre @ key # post \<and> own key = Some m
     \<and> assertMappingConfiguration m strict = Inl e
     \<and> (\<forall>k\<in>set pre. \<forall>m'. own k = Some m' \<longrightarrow> assertMappingConfiguration m' strict = Inr ())"
proof (induction keys)
  case Nil
  then show ?case by simp
next
  case (Cons k keys)
  show ?case
  proof (cases "\<exists>m. own k = Some m \<and> assertMappingConfiguration m strict = Inl e")
    case True
    then obtain m where "own k = Some m" "assertMappingConfiguration m strict = Inl e"
      by blast
    then have "k # keys = [] @ k # keys \<and> own k = Some m
        \<and> assertMappingConfiguration m strict = Inl e
        \<and> (\<forall>k\<in>set []. \<forall>m'. own k = Some m' \<longrightarrow> assertMappingConfiguration m' strict = Inr ())"
      by simp
    then show ?thesis by blast
  next
    case False
    have skip: "\<forall>m'. own k = Some m' \<longrightarrow> assertMappingConfiguration m' strict = Inr ()"
    proof (intro allI impI)
      fix m' assume m': "own k = Some m'"
      show "assertMappingConfiguration m' strict = Inr ()"
      proof (cases "assertMappingConfiguration m' strict")
        case (Inl e')
        with m' Cons.prems have "e' = e" by simp
        with Inl m' False show ?thesis by blast
      next
        case (Inr u)
        then show ?thesis by simp
      qed
    qed
    with Cons.prems have "assertConfigurationIsValid_loop keys own strict = Inl e"
      by (auto split: option.splits)
    from Cons.IH [OF this] obtain pre key post m where d: "keys = pre @ key # post"
      "own key = Some m" "assertMappingConfiguration m strict = Inl e"
      "\<forall>k\<in>set pre. \<forall>m'. own k = Some m' \<longrightarrow> assertMappingConfiguration m' strict = Inr ()"
      by blast
    have "k # keys = (k # pre) @ key # post" using d(1) by simp
    moreover have "\<forall>k'\<in>set (k # pre). \<forall>m'. own k' = Some m' \<longrightarrow>
        assertMappingConfiguration m' strict = Inr ()"
      using d(4) skip by simp
    ultimately show ?thesis using d(2,3) by blast
  qed
qed

text \<open>
  C7. \<open>assertConfigurationIsValid\<close> examines the own entries of the registry only, in the
  order of enumeration. It fails with error \<open>e\<close> exactly when some own entry fails with
  \<open>e\<close> and every own entry enumerated before it is valid, whatever comes after it; it
  returns normally exactly when every own entry is valid.
\<close>

theorem assertConfigurationIsValid_first_failure:
  "(assertConfigurationIsValid mappings strict = Inl e \<longleftrightarrow>
      (\<exists>pre key post m.
          registryKeys mappings = pre @ key # post
        \<and> ownEntries mappings key = Some m
        \<and> assertMappingConfiguration m strict = Inl e
        \<and> (\<forall>k\<in>set pre. \<forall>m'. ownEntries mappings k = Some m' \<longrightarrow>
              assertMappingConfiguration m' strict = Inr ())))
   \<and> (assertConfigurationIsValid mappings strict = Inr () \<longleftrightarrow>
      (\<forall>k\<in>set (registryKeys mappings). \<forall>m'. ownEntries mappings k = Some m' \<longrightarrow>
          assertMappingConfiguration m' strict = Inr ()))"
proof (intro conjI iffI)
  assume "assertConfigurationIsValid mappings strict = Inl e"
  then show "\<exists>pre key post m.
          registryKeys mappings = pre @ key # post
        \<and> ownEntries mappings key = Some m
        \<and> assertMappingConfiguration m strict = Inl e
        \<and> (\<forall>k\<in>set pre. \<forall>m'. ownEntries mappings k = Some m' \<longrightarrow>
              assertMappingConfiguration m' strict = Inr ())"
    unfolding assertConfigurationIsValid_def by (rule loop_failure)
next
  assume "\<exists>pre key post m.
          registryKeys mappings = pre @ key # post
        \<and> ownEntries mappings key = Some m
        \<and> assertMappingConfiguration m strict = Inl e
        \<and> (\<forall>k\<in>set pre. \<forall>m'. ownEntries mappings k = Some m' \<longrightarrow>
              assertMappingConfiguration m' strict = Inr ())"
  then obtain pre key post m where d: "registryKeys mappings = pre @ key # post"
    "ownEntries mappings key = Some m" "assertMappingConfiguration m strict = Inl e"
    "\<forall>k\<in>set pre. \<forall>m'. ownEntries mappings k = Some m' \<longrightarrow>
        assertMappingConfiguration m' strict = Inr ()"
    by blast
  show "assertConfigurationIsValid mappings strict = Inl e"
    unfolding assertConfigurationIsValid_def d(1)
    using loop_skips_valid [OF d(4), of "key # post"] d(2,3) by simp
next
  assume "assertConfigurationIsValid mappings strict = Inr ()"
  then show "\<forall>k\<in>set (registryKeys mappings). \<forall>m'. ownEntries mappings k = Some m' \<longrightarrow>
          assertMappingConfiguration m' strict = Inr ()"
    unfolding assertConfigurationIsValid_def by (simp only: loop_valid)
next
  assume "\<forall>k\<in>set (registryKeys mappings). \<forall>m'. ownEntries mappings k = Some m' \<longrightarrow>
          assertMappingConfiguration m' strict = Inr ()"
  then show "assertConfigurationIsValid mappings strict = Inr ()"
    unfolding assertConfigurationIsValid_def by (simp only: loop_valid)
qed

theorem assertConfigurationIsValid_first_failure_witness:
  "assertConfigurationIsValid
     \<lparr>registryKeys = [''inherited'', ''A=>B'', ''C=>D''],
      ownEntries =
        [''A=>B'' \<mapsto>
           \<lparr>sourceKey = ''A'', destinationKey = ''B'', sourceTypeClass = None,
            destinationTypeClass = None, properties = []\<rparr>,
         ''C=>D'' \<mapsto>
           \<lparr>sourceKey = ''C'', destinationKey = ''D'', sourceTypeClass = None,
            destinationTypeClass = None,
            properties = [ISourceProperty ''id'' ''id'' None None]\<rparr>]\<rparr> True
   = Inl (Error (''Mapping '' @ quoted ''A=>B''
            @ '' cannot be validated, since mapping.sourceType or mapping.destinationType are unspecified.''))
   \<and> assertConfigurationIsValid
     \<lparr>registryKeys = [''inherited'', ''A=>B'', ''C=>D''],
      ownEntries =
        [''A=>B'' \<mapsto>
           \<lparr>sourceKey = ''A'', destinationKey = ''B'', sourceTypeClass = None,
            destinationTypeClass = None, properties = []\<rparr>,
         ''C=>D'' \<mapsto>
           \<lparr>sourceKey = ''C'', destinationKey = ''D'', sourceTypeClass = None,
            destinationTypeClass = None,
            properties = [ISourceProperty ''id'' ''id'' None None]\<rparr>]\<rparr> False
   = Inr ()"
proof -
  let ?A = "\<lparr>sourceKey = ''A'', destinationKey = ''B'', sourceTypeClass = None,
             destinationTypeClass = None, properties = []\<rparr>"
  let ?C = "\<lparr>sourceKey = ''C'', destinationKey = ''D'', sourceTypeClass = None,
             destinationTypeClass = None,
             properties = [ISourceProperty ''id'' ''id'' None None]\<rparr>"
  let ?R = "\<lparr>registryKeys = [''inherited'', ''A=>B'', ''C=>D''],
             ownEntries = [''A=>B'' \<mapsto> ?A, ''C=>D'' \<mapsto> ?C]\<rparr>"
  let ?e = "Error (''Mapping '' @ quoted ''A=>B''
            @ '' cannot be validated, since mapping.sourceType or mapping.destinationType are unspecified.'')"
  have fails: "assertMappingConfiguration ?A True = Inl ?e"
    by (simp add: assertMappingConfiguration_def)
  have "registryKeys ?R = [''inherited''] @ ''A=>B'' # [''C=>D'']
      \<and> ownEntries ?R ''A=>B'' = Some ?A
      \<and> assertMappingConfiguration ?A True = Inl ?e
      \<and> (\<forall>k\<in>set [''inherited'']. \<forall>m'. ownEntries ?R k = Some m' \<longrightarrow>
            assertMappingConfiguration m' True = Inr ())"
    using fails by simp
  then have "\<exists>pre key post m.
        registryKeys ?R = pre @ key # post
      \<and> ownEntries ?R key = Some m
      \<and> assertMappingConfiguration m True = Inl ?e
      \<and> (\<forall>k\<in>set pre. \<forall>m'. ownEntries ?R k = Some m' \<longrightarrow>
            assertMappingConfiguration m' True = Inr ())"
    by blast
  then have strict: "assertConfigurationIsValid ?R True = Inl ?e"
    using assertConfigurationIsValid_first_failure [of ?R True ?e] by blast
  have "\<forall>k\<in>set (registryKeys ?R). \<forall>m'. ownEntries ?R k = Some m' \<longrightarrow>
          assertMappingConfiguration m' False = Inr ()"
    by (simp add: assertMappingConfiguration_def)
  then have "assertConfigurationIsValid ?R False = Inr ()"
    using assertConfigurationIsValid_first_failure [of ?R False] by blast
  with strict show ?thesis by simp
qed

end
